theory Spec2Isabelle
  imports Complex_Main "HOL-Library.Word"
begin

section \<open>Watermark removal: the embedding of main.py\<close>

text \<open>
  The program is a thin driver around an imaging library (OpenCV), NumPy and pathlib.
  The model follows main.py function by function. Everything the script calls but does
  not define (decoding, text measurement, rasterisation, inpainting, encoding, directory
  creation and listing) is a field of the record \<open>lib\<close>: each call returns either the
  Python exception it raised (\<open>Inl\<close>) or its value (\<open>Inr\<close>). Theorems quantify over
  every such library, so they state what the script's own code guarantees.
\<close>

subsection \<open>Values\<close>

text \<open>An instance of Python's \<open>Exception\<close>, carrying \<open>str(e)\<close>. The faults the
  libraries raise (\<open>cv2.error\<close>, \<open>OSError\<close>, \<open>ValueError\<close>, \<open>IndexError\<close>) are all of
  this class.\<close>

datatype exn = Exn string

text \<open>A NumPy array of dtype uint8: its shape and its buffer in row-major order.\<close>

record ndarray =
  shape :: "nat list"
  data :: "8 word list"

datatype font = FONT_HERSHEY_SIMPLEX

datatype line_type = LINE_AA

datatype inpaint_flag = INPAINT_TELEA

text \<open>A \<open>pathlib.Path\<close>, as the tuple of its parts; an absolute path has the root
  \<open>''/''\<close> as its first part.\<close>

type_synonym path = "string list"

subsection \<open>The library boundary\<close>

text \<open>
  \<^item> \<open>mkdir fs p parents exist_ok\<close> is \<open>Path.mkdir\<close>; it returns the file system it leaves.
  \<^item> \<open>iterdir fs p\<close> is \<open>Path.iterdir\<close>: the children of \<open>p\<close>, as paths.
  \<^item> \<open>is_file fs p\<close> is \<open>Path.is_file\<close>; main.py never calls it.
  \<^item> \<open>imread fs s\<close> is \<open>cv2.imread\<close>: \<open>None\<close> when the file does not decode.
  \<^item> \<open>imwrite fs s a\<close> is \<open>cv2.imwrite\<close>: it returns whether the file was written, and
    the file system it leaves.
  \<^item> \<open>getTextSize text font scale thickness\<close> is \<open>cv2.getTextSize\<close>:
    \<open>((width, height), baseline)\<close>.
  \<^item> \<open>putText a text org font scale color thickness line_type\<close> is \<open>cv2.putText\<close>.
    It draws into the array it is given, so it cannot change the array's shape: the
    model takes from it the pixels it writes, as a partial map from \<open>(row, column)\<close>
    to the value stored there, and stores them into the buffer (\<open>put_pixels\<close>).
  \<^item> \<open>inpaint image mask radius flag\<close> is \<open>cv2.inpaint\<close>; it returns a new array.
\<close>

record 'fs lib =
  mkdir :: "'fs \<Rightarrow> path \<Rightarrow> bool \<Rightarrow> bool \<Rightarrow> (exn + unit) \<times> 'fs"
  iterdir :: "'fs \<Rightarrow> path \<Rightarrow> exn + path list"
  is_file :: "'fs \<Rightarrow> path \<Rightarrow> bool"
  imread :: "'fs \<Rightarrow> string \<Rightarrow> exn + ndarray option"
  imwrite :: "'fs \<Rightarrow> string \<Rightarrow> ndarray \<Rightarrow> (exn + bool) \<times> 'fs"
  getTextSize :: "string \<Rightarrow> font \<Rightarrow> rat \<Rightarrow> int \<Rightarrow> exn + (int \<times> int) \<times> int"
  putText :: "ndarray \<Rightarrow> string \<Rightarrow> int \<times> int \<Rightarrow> font \<Rightarrow> rat \<Rightarrow> int \<Rightarrow> int \<Rightarrow> line_type
                \<Rightarrow> exn + (nat \<times> nat \<Rightarrow> 8 word option)"
  inpaint :: "ndarray \<Rightarrow> ndarray \<Rightarrow> int \<Rightarrow> inpaint_flag \<Rightarrow> exn + ndarray"

text \<open>What the process has printed, line by line, and the file system. \<open>print\<close> itself
  is taken to succeed.\<close>

record 'fs world =
  console :: "string list"
  files :: 'fs

definition print :: "string \<Rightarrow> 'fs world \<Rightarrow> 'fs world" where
  "print s w = w\<lparr>console := console w @ [s]\<rparr>"

subsection \<open>NumPy\<close>

text \<open>\<open>np.zeros(shape, dtype=np.uint8)\<close>: the array it returns. The call is taken to
  return; on a shape too large to allocate it raises before any other call is made, a
  run the model leaves out. The statements about the mask are about what the rasteriser
  does on the buffer, which is then there.\<close>

definition zeros :: "nat list \<Rightarrow> ndarray" where
  "zeros shp = \<lparr>shape = shp, data = replicate (prod_list shp) 0\<rparr>"

text \<open>Storing the pixels a drawing call writes into a two-dimensional array, in place:
  the shape and the size of the buffer stay, a pixel that is not written keeps its
  value, and a write that falls outside the buffer has nowhere to go.\<close>

definition put_pixels :: "ndarray \<Rightarrow> (nat \<times> nat \<Rightarrow> 8 word option) \<Rightarrow> ndarray" where
  "put_pixels a wr =
     (let w = shape a ! 1
      in a\<lparr>data := map (\<lambda>i. case wr (i div w, i mod w) of None \<Rightarrow> data a ! i | Some v \<Rightarrow> v)
                        [0..<length (data a)]\<rparr>)"

subsection \<open>generate_text_mask\<close>

text \<open>
  \<^verbatim>\<open>
  def generate_text_mask(image_shape, text="SAMPLE"):
      mask = np.zeros(image_shape[:2], dtype=np.uint8)
      font = cv2.FONT_HERSHEY_SIMPLEX
      font_scale = 6.0  # Large text
      thickness = 18    # Bold
      text_size, _ = cv2.getTextSize(text, font, font_scale, thickness)
      text_width, text_height = text_size
      x = (mask.shape[1] - text_width) // 2
      y = (mask.shape[0] + text_height) // 2
      cv2.putText(mask, text, (x, y), font, font_scale, 255, thickness, cv2.LINE_AA)
      return mask
  \<close>
  The shape is a tuple of natural numbers. \<open>mask.shape[1]\<close> raises \<open>IndexError\<close> when
  the shape has fewer than two components. The array returned is \<open>mask\<close> itself, the
  buffer \<open>np.zeros\<close> made, after the rasteriser has drawn into it.
\<close>

definition generate_text_mask :: "'fs lib \<Rightarrow> nat list \<Rightarrow> string \<Rightarrow> exn + ndarray" where
  "generate_text_mask env image_shape text =
     (let mask = zeros (take 2 image_shape);
          font = FONT_HERSHEY_SIMPLEX;
          font_scale = 6;
          thickness = 18
      in case getTextSize env text font font_scale thickness of
           Inl e \<Rightarrow> Inl e
         | Inr ((text_width, text_height), _) \<Rightarrow>
             (if length (shape mask) < 2 then Inl (Exn ''tuple index out of range'')
              else
                (let x = (int (shape mask ! 1) - text_width) div 2;
                     y = (int (shape mask ! 0) + text_height) div 2
                 in (case putText env mask text (x, y) font font_scale 255 thickness LINE_AA of
                       Inl e \<Rightarrow> Inl e
                     | Inr wr \<Rightarrow> Inr (put_pixels mask wr)))))"

subsection \<open>pathlib and string formatting\<close>

text \<open>\<open>sep.join(parts)\<close>.\<close>

fun join :: "string \<Rightarrow> string list \<Rightarrow> string" where
  "join sep [] = []"
| "join sep [x] = x"
| "join sep (x # y # ys) = x @ sep @ join sep (y # ys)"

text \<open>\<open>str(path)\<close>: the parts joined by \<open>/\<close>; the empty path is the current directory.\<close>

definition str_path :: "path \<Rightarrow> string" where
  "str_path p =
     (if p = [] then ''.''
      else if hd p = ''/'' then ''/'' @ join ''/'' (tl p)
      else join ''/'' p)"

text \<open>\<open>path.name\<close>: the final part, empty for the current directory and the root.\<close>

definition name_of :: "path \<Rightarrow> string" where
  "name_of p = (if p = [] \<or> p = [''/''] then [] else last p)"

text \<open>\<open>dir / name\<close>, for a name that is one part (or empty).\<close>

definition joinpath :: "path \<Rightarrow> string \<Rightarrow> path" where
  "joinpath d n = (if n = [] then d else d @ [n])"

text \<open>\<open>s.rfind(c)\<close>: the index of the last occurrence, or \<open>-1\<close>.\<close>

fun rfind :: "string \<Rightarrow> char \<Rightarrow> int" where
  "rfind [] c = - 1"
| "rfind (x # xs) c =
     (let r = rfind xs c in if 0 \<le> r then r + 1 else if x = c then 0 else - 1)"

text \<open>\<open>path.suffix\<close>: the name from its last dot on, when that dot is neither the first
  nor the last character of the name; otherwise empty.\<close>

definition suffix :: "path \<Rightarrow> string" where
  "suffix p =
     (let n = name_of p; i = rfind n CHR ''.''
      in if 0 < i \<and> i < int (length n) - 1 then drop (nat i) n else [])"

text \<open>\<open>s.lower()\<close> on the letters \<open>A\<close> to \<open>Z\<close>. Every other byte is kept; no character
  outside ASCII lowers to a string of ASCII letters only, so membership in the
  allow-list below is decided as Python decides it.\<close>

definition lower_char :: "char \<Rightarrow> char" where
  "lower_char c =
     (case map_of (zip ''ABCDEFGHIJKLMNOPQRSTUVWXYZ'' ''abcdefghijklmnopqrstuvwxyz'') c of
        None \<Rightarrow> c
      | Some d \<Rightarrow> d)"

definition lower :: "string \<Rightarrow> string" where
  "lower s = map lower_char s"

text \<open>\<open>str(n)\<close> for an integer, as an f-string formats it.\<close>

fun str_nat :: "nat \<Rightarrow> string" where
  "str_nat n =
     (if n < 10 then [''0123456789'' ! n]
      else str_nat (n div 10) @ [''0123456789'' ! (n mod 10)])"

declare str_nat.simps [simp del]

definition str_int :: "int \<Rightarrow> string" where
  "str_int i = (if i < 0 then CHR ''-'' # str_nat (nat (- i)) else str_nat (nat i))"

subsection \<open>remove_watermark\<close>

text \<open>
  \<^verbatim>\<open>
  def remove_watermark(image_path, output_path, watermark_text="SAMPLE"):
      image = cv2.imread(str(image_path))
      if image is None:
          print(f"Error: Could not read image at {image_path}")
          return False
      mask = generate_text_mask(image.shape, watermark_text)
      result = cv2.inpaint(image, mask, 7, cv2.INPAINT_TELEA)
      cv2.imwrite(str(output_path), result)
      return True
  \<close>
  The function has no \<open>try\<close>: an exception of a library call is the function's own
  result. The value \<open>cv2.imwrite\<close> returns is dropped.
\<close>

definition remove_watermark ::
  "'fs lib \<Rightarrow> 'fs world \<Rightarrow> path \<Rightarrow> path \<Rightarrow> string \<Rightarrow> (exn + bool) \<times> 'fs world" where
  "remove_watermark env w image_path output_path watermark_text =
     (case imread env (files w) (str_path image_path) of
        Inl e \<Rightarrow> (Inl e, w)
      | Inr None \<Rightarrow>
          (Inr False, print (''Error: Could not read image at '' @ str_path image_path) w)
      | Inr (Some img) \<Rightarrow>
          (case generate_text_mask env (shape img) watermark_text of
             Inl e \<Rightarrow> (Inl e, w)
           | Inr msk \<Rightarrow>
               (case inpaint env img msk 7 INPAINT_TELEA of
                  Inl e \<Rightarrow> (Inl e, w)
                | Inr result \<Rightarrow>
                    (case imwrite env (files w) (str_path output_path) result of
                       (Inl e, fs) \<Rightarrow> (Inl e, w\<lparr>files := fs\<rparr>)
                     | (Inr _, fs) \<Rightarrow> (Inr True, w\<lparr>files := fs\<rparr>)))))"

subsection \<open>process_images\<close>

text \<open>
  \<^verbatim>\<open>
  def process_images(input_dir, output_dir, watermark_text="SAMPLE"):
      output_dir = Path(output_dir)
      output_dir.mkdir(parents=True, exist_ok=True)
      input_dir = Path(input_dir)
      image_extensions = {'.jpg', '.jpeg', '.png', '.bmp', '.tiff', '.tif'}
      image_files = [f for f in input_dir.iterdir() if f.suffix.lower() in image_extensions]
      if not image_files:
          print(f"No image files found in {input_dir}")
          return
      print(f"Found {len(image_files)} images to process")
      processed_count = 0
      for image_path in image_files:
          output_path = output_dir / image_path.name
          if remove_watermark(image_path, output_path, watermark_text):
              processed_count += 1
      print("Processing complete:")
      print(f"- Successful: {processed_count}")
      print(f"- Failed: {len(image_files) - processed_count}")
  \<close>
  The model takes the two directories as paths already.
\<close>

definition image_extensions :: "string set" where
  "image_extensions = {''.jpg'', ''.jpeg'', ''.png'', ''.bmp'', ''.tiff'', ''.tif''}"

text \<open>The list comprehension over the directory's entries.\<close>

definition image_files :: "path list \<Rightarrow> path list" where
  "image_files entries = filter (\<lambda>f. lower (suffix f) \<in> image_extensions) entries"

text \<open>The \<open>for\<close> loop, with \<open>processed_count\<close> as the accumulator. An exception leaves
  the loop at once.\<close>

fun process_loop ::
  "'fs lib \<Rightarrow> 'fs world \<Rightarrow> path \<Rightarrow> string \<Rightarrow> path list \<Rightarrow> int \<Rightarrow> (exn + int) \<times> 'fs world" where
  "process_loop env w output_dir watermark_text [] processed_count = (Inr processed_count, w)"
| "process_loop env w output_dir watermark_text (image_path # rest) processed_count =
     (let output_path = joinpath output_dir (name_of image_path)
      in case remove_watermark env w image_path output_path watermark_text of
           (Inl e, w') \<Rightarrow> (Inl e, w')
         | (Inr ok, w') \<Rightarrow>
             process_loop env w' output_dir watermark_text rest
               (if ok then processed_count + 1 else processed_count))"

definition process_images ::
  "'fs lib \<Rightarrow> 'fs world \<Rightarrow> path \<Rightarrow> path \<Rightarrow> string \<Rightarrow> (exn + unit) \<times> 'fs world" where
  "process_images env w input_dir output_dir watermark_text =
     (case mkdir env (files w) output_dir True True of
        (Inl e, fs) \<Rightarrow> (Inl e, w\<lparr>files := fs\<rparr>)
      | (Inr _, fs) \<Rightarrow>
          (let w1 = w\<lparr>files := fs\<rparr>
           in case iterdir env fs input_dir of
                Inl e \<Rightarrow> (Inl e, w1)
              | Inr entries \<Rightarrow>
                  (let files_found = image_files entries
                   in if files_found = []
                      then (Inr (), print (''No image files found in '' @ str_path input_dir) w1)
                      else
                        (let w2 = print (''Found '' @ str_nat (length files_found)
                                          @ '' images to process'') w1
                         in (case process_loop env w2 output_dir watermark_text files_found 0 of
                               (Inl e, w3) \<Rightarrow> (Inl e, w3)
                             | (Inr processed_count, w3) \<Rightarrow>
                                 (Inr (),
                                  print (''- Failed: ''
                                         @ str_int (int (length files_found) - processed_count))
                                    (print (''- Successful: '' @ str_int processed_count)
                                       (print ''Processing complete:'' w3))))))))"

subsection \<open>main\<close>

text \<open>
  \<^verbatim>\<open>
  def main():
      ...
      args = parser.parse_args()
      try:
          process_images(args.input_dir, args.output_dir, args.text)
      except Exception as e:
          print(f"Error: {str(e)}")
  \<close>
\<close>

text \<open>The parsed command line.\<close>

record args =
  input_dir :: path
  output_dir :: path
  text_arg :: string

text \<open>The \<open>try\<close> around \<open>process_images\<close>, whose handler prints \<open>str(e)\<close>.\<close>

definition main :: "'fs lib \<Rightarrow> 'fs world \<Rightarrow> args \<Rightarrow> (exn + unit) \<times> 'fs world" where
  "main env w a =
     (case process_images env w (input_dir a) (output_dir a) (text_arg a) of
        (Inl (Exn msg), w') \<Rightarrow> (Inr (), print (''Error: '' @ msg) w')
      | (Inr _, w') \<Rightarrow> (Inr (), w'))"

text \<open>The exit status of the interpreter when \<open>main()\<close> was the last statement of the
  script: 0 when it returned, 1 when an exception escaped it.\<close>

definition exit_status :: "(exn + unit) \<times> 'fs world \<Rightarrow> nat" where
  "exit_status r = (case fst r of Inl _ \<Rightarrow> 1 | Inr _ \<Rightarrow> 0)"

subsection \<open>Notions the properties are stated with\<close>

text \<open>A mask is binary when each of its pixels is 0 or 255.\<close>

definition binary_mask :: "ndarray \<Rightarrow> bool" where
  "binary_mask m = list_all (\<lambda>v. v = 0 \<or> v = 255) (data m)"

text \<open>
  The library calls of a batch, read off the library alone. The files are taken in turn,
  each at the file system the earlier writes have left. The result is \<open>None\<close> when a
  call made for one of them raises. Otherwise it tells, file by file, whether
  \<open>cv2.imread\<close> returned an image (\<open>True\<close>) or \<open>None\<close> (\<open>False\<close>), and gives the file
  system the writes leave.
\<close>

fun decode_outcomes ::
  "'fs lib \<Rightarrow> path \<Rightarrow> string \<Rightarrow> 'fs \<Rightarrow> path list \<Rightarrow> (bool list \<times> 'fs) option" where
  "decode_outcomes env out t fs [] = Some ([], fs)"
| "decode_outcomes env out t fs (p # ps) =
     (case imread env fs (str_path p) of
        Inl e \<Rightarrow> None
      | Inr None \<Rightarrow>
          map_option (\<lambda>(ds, fs'). (False # ds, fs')) (decode_outcomes env out t fs ps)
      | Inr (Some img) \<Rightarrow>
          (case generate_text_mask env (shape img) t of
             Inl e \<Rightarrow> None
           | Inr msk \<Rightarrow>
               (case inpaint env img msk 7 INPAINT_TELEA of
                  Inl e \<Rightarrow> None
                | Inr res \<Rightarrow>
                    (case imwrite env fs (str_path (joinpath out (name_of p))) res of
                       (Inl e, fs1) \<Rightarrow> None
                     | (Inr written, fs1) \<Rightarrow>
                         map_option (\<lambda>(ds, fs'). (True # ds, fs'))
                           (decode_outcomes env out t fs1 ps)))))"

text \<open>The lines printed for the files that did not decode, in the order of the batch.\<close>

definition error_lines :: "path list \<Rightarrow> bool list \<Rightarrow> string list" where
  "error_lines ps ds =
     map (\<lambda>(p, d). ''Error: Could not read image at '' @ str_path p)
       (filter (\<lambda>(p, d). \<not> d) (zip ps ds))"

subsection \<open>A small library for evaluating the model\<close>

text \<open>
  A library simple enough to compute with. Its file system is the list of files written
  so far. The directory it lists holds five entries; \<open>broken.png\<close> does not decode,
  every other file decodes to a 2 by 3 colour image. Text measures four pixels a
  character and two pixels high, and is drawn as a filled box whose lower left corner
  is the anchor. Inpainting returns the image as it is.
\<close>

definition stub_lib :: "(string \<times> ndarray) list lib" where
  "stub_lib =
     \<lparr>mkdir = (\<lambda>fs p parents exist_ok. (Inr (), fs)),
      iterdir = (\<lambda>fs p. Inr (map (\<lambda>n. p @ [n])
                  [''a.jpg'', ''broken.png'', ''b.PNG'', ''notes.txt'', ''c.tif''])),
      is_file = (\<lambda>fs p. True),
      imread = (\<lambda>fs s. Inr (if s = ''in/broken.png'' then None
                              else Some \<lparr>shape = [2, 3, 3], data = replicate 18 7\<rparr>)),
      imwrite = (\<lambda>fs s a. (Inr True, fs @ [(s, a)])),
      getTextSize = (\<lambda>text font scale thickness. Inr ((4 * int (length text), 2), 1)),
      putText = (\<lambda>a text org font scale color thickness lt.
                  Inr (\<lambda>(r, c). if fst org \<le> int c \<and> int c < fst org + 4 * int (length text)
                                   \<and> snd org - 2 \<le> int r \<and> int r < snd org
                                 then Some (word_of_int color) else None)),
      inpaint = (\<lambda>img msk radius flag. Inr img)\<rparr>"

text \<open>The same library, but \<open>b.PNG\<close> decodes to a 1 by 1 image, on which inpainting
  raises.\<close>

definition faulty_lib :: "(string \<times> ndarray) list lib" where
  "faulty_lib =
     stub_lib
       \<lparr>imread := (\<lambda>fs s. Inr (if s = ''in/broken.png'' then None
                                else if s = ''in/b.PNG''
                                  then Some \<lparr>shape = [1, 1, 3], data = [1, 2, 3]\<rparr>
                                else Some \<lparr>shape = [2, 3, 3], data = replicate 18 7\<rparr>)),
        inpaint := (\<lambda>img msk radius flag.
                      if shape img = [1, 1, 3] then Inl (Exn ''inpaint failed'') else Inr img)\<rparr>"

text \<open>The same library with a rasteriser that blends the edge of a stroke, as the
  anti-aliased line type asks: the column on either side of the box is stored at half
  the colour.\<close>

definition aa_lib :: "(string \<times> ndarray) list lib" where
  "aa_lib =
     stub_lib
       \<lparr>putText := (\<lambda>a text org font scale color thickness lt.
                      Inr (\<lambda>(r, c).
                        if snd org - 2 \<le> int r \<and> int r < snd org
                        then (if fst org \<le> int c \<and> int c < fst org + 4 * int (length text)
                              then Some (word_of_int color)
                              else if int c = fst org - 1
                                      \<or> int c = fst org + 4 * int (length text)
                              then Some (word_of_int (color div 2))
                              else None)
                        else None))\<rparr>"

text \<open>The same library with a rasteriser that raises on an array without pixels.\<close>

definition strict_lib :: "(string \<times> ndarray) list lib" where
  "strict_lib =
     stub_lib
       \<lparr>putText := (\<lambda>a text org font scale color thickness lt.
                      if data a = [] then Inl (Exn ''empty image'')
                      else putText stub_lib a text org font scale color thickness lt)\<rparr>"

text \<open>The same library, but reading \<open>broken.png\<close> raises where it returned \<open>None\<close>.\<close>

definition raising_lib :: "(string \<times> ndarray) list lib" where
  "raising_lib =
     stub_lib
       \<lparr>imread := (\<lambda>fs s. if s = ''in/broken.png'' then Inl (Exn ''cannot decode'')
                            else imread stub_lib fs s)\<rparr>"

section \<open>Properties\<close>

subsection \<open>The mask generator\<close>

lemma zeros_2d: "zeros [H, W] = \<lparr>shape = [H, W], data = replicate (H * W) 0\<rparr>"
  by (simp add: zeros_def)

text \<open>On a shape with at least two components the index error cannot happen, and the
  function is the two library calls in sequence.\<close>

lemma generate_text_mask_2d:
  "generate_text_mask env (H # W # rest) text =
     (case getTextSize env text FONT_HERSHEY_SIMPLEX 6 18 of
        Inl e \<Rightarrow> Inl e
      | Inr ((tw, th), bl) \<Rightarrow>
          (case putText env (zeros [H, W]) text ((int W - tw) div 2, (int H + th) div 2)
                  FONT_HERSHEY_SIMPLEX 6 255 18 LINE_AA of
             Inl e \<Rightarrow> Inl e
           | Inr wr \<Rightarrow> Inr (put_pixels (zeros [H, W]) wr)))"
  by (simp add: generate_text_mask_def zeros_def split: sum.splits prod.splits)

text \<open>On a shape with fewer than two components the function raises, once the text has
  been measured: such a shape is not a canvas.\<close>

lemma generate_text_mask_1d:
  assumes "getTextSize env text FONT_HERSHEY_SIMPLEX 6 18 = Inr ((tw, th), bl)"
    and "length image_shape < 2"
  shows "generate_text_mask env image_shape text = Inl (Exn ''tuple index out of range'')"
  using assms by (simp add: generate_text_mask_def zeros_def)

lemma shape_put_pixels: "shape (put_pixels a wr) = shape a"
  by (simp add: put_pixels_def Let_def)

lemma length_put_pixels: "length (data (put_pixels a wr)) = length (data a)"
  by (simp add: put_pixels_def Let_def)

lemma pixel_index_less:
  assumes "r < H" and "c < W"
  shows "r * W + c < H * (W::nat)"
proof -
  have "r * W + c < r * W + W" using assms by simp
  also have "\<dots> = Suc r * W" by simp
  also have "\<dots> \<le> H * W" using assms by (intro mult_le_mono1) simp
  finally show ?thesis .
qed

lemma put_pixels_zeros_nth:
  assumes "r < H" and "c < W"
  shows "data (put_pixels (zeros [H, W]) wr) ! (r * W + c)
           = (case wr (r, c) of None \<Rightarrow> 0 | Some v \<Rightarrow> v)"
  using assms pixel_index_less [OF assms]
  by (simp add: put_pixels_def zeros_def split: option.splits)

text \<open>
  C1. For an image shape \<open>H # W # rest\<close> (whatever follows the first two components,
  so whatever the channel count) and any text, when the two library calls return,
  \<open>generate_text_mask\<close> returns a two-dimensional array of shape \<open>[H, W]\<close> with
  \<open>H * W\<close> pixels. It is the all-zero buffer of that shape with the rasteriser's writes
  stored into it: a pixel the rasteriser did not write is zero. The result is the one
  obtained for the shape \<open>[H, W]\<close> alone.
\<close>

theorem generate_text_mask_dimensions:
  assumes "getTextSize env text FONT_HERSHEY_SIMPLEX 6 18 = Inr ((tw, th), bl)"
    and "putText env (zeros [H, W]) text ((int W - tw) div 2, (int H + th) div 2)
           FONT_HERSHEY_SIMPLEX 6 255 18 LINE_AA = Inr wr"
  shows "\<exists>m. generate_text_mask env (H # W # rest) text = Inr m
           \<and> shape m = [H, W] \<and> length (data m) = H * W
           \<and> m = put_pixels \<lparr>shape = [H, W], data = replicate (H * W) 0\<rparr> wr
           \<and> (\<forall>r<H. \<forall>c<W. wr (r, c) = None \<longrightarrow> data m ! (r * W + c) = 0)
           \<and> generate_text_mask env [H, W] text = Inr m"
proof -
  let ?m = "put_pixels (zeros [H, W]) wr"
  have run: "generate_text_mask env (H # W # rest) text = Inr ?m"
    using assms by (simp add: generate_text_mask_2d)
  have run2: "generate_text_mask env [H, W] text = Inr ?m"
    using assms by (simp add: generate_text_mask_2d)
  have shp: "shape ?m = [H, W]"
    by (simp add: shape_put_pixels zeros_def)
  have len: "length (data ?m) = H * W"
    by (simp add: length_put_pixels zeros_def)
  have z: "?m = put_pixels \<lparr>shape = [H, W], data = replicate (H * W) 0\<rparr> wr"
    by (simp add: zeros_2d)
  have px: "\<forall>r<H. \<forall>c<W. wr (r, c) = None \<longrightarrow> data ?m ! (r * W + c) = 0"
    by (simp add: put_pixels_zeros_nth)
  from run run2 shp len z px show ?thesis by blast
qed

text \<open>A 4 by 8 colour image and the text \<open>A\<close>: the mask is 4 by 8.\<close>

theorem generate_text_mask_dimensions_witness:
  "getTextSize stub_lib ''A'' FONT_HERSHEY_SIMPLEX 6 18 = Inr ((4, 2), 1)
   \<and> (\<exists>m. generate_text_mask stub_lib [4, 8, 3] ''A'' = Inr m
          \<and> shape m = [4, 8] \<and> length (data m) = 4 * 8
          \<and> generate_text_mask stub_lib [4, 8] ''A'' = Inr m)"
proof -
  have ts: "getTextSize stub_lib ''A'' FONT_HERSHEY_SIMPLEX 6 18 = Inr ((4, 2), 1)"
    by (simp add: stub_lib_def)
  obtain wr where pt:
    "putText stub_lib (zeros [4, 8]) ''A'' ((int 8 - 4) div 2, (int 4 + 2) div 2)
       FONT_HERSHEY_SIMPLEX 6 255 18 LINE_AA = Inr wr"
    by (simp add: stub_lib_def)
  from generate_text_mask_dimensions [OF ts pt, of "[3]"] ts show ?thesis by blast
qed

text \<open>
  C3. For a canvas of width \<open>W\<close> and height \<open>H\<close> and a text measured \<open>tw\<close> wide and
  \<open>th\<close> high, the rasteriser is called with the anchor \<open>x = (W - tw) div 2\<close>,
  \<open>y = (H + th) div 2\<close>. Both are floors: \<open>2x \<le> W - tw < 2x + 2\<close> and
  \<open>2y \<le> H + th < 2y + 2\<close>, also when \<open>W - tw\<close> is negative.
\<close>

theorem generate_text_mask_anchor:
  assumes "getTextSize env text FONT_HERSHEY_SIMPLEX 6 18 = Inr ((tw, th), bl)"
  shows "\<exists>x y. x = (int W - tw) div 2 \<and> y = (int H + th) div 2
           \<and> 2 * x \<le> int W - tw \<and> int W - tw < 2 * x + 2
           \<and> 2 * y \<le> int H + th \<and> int H + th < 2 * y + 2
           \<and> generate_text_mask env (H # W # rest) text =
               (case putText env (zeros [H, W]) text (x, y)
                       FONT_HERSHEY_SIMPLEX 6 255 18 LINE_AA of
                  Inl e \<Rightarrow> Inl e
                | Inr wr \<Rightarrow> Inr (put_pixels (zeros [H, W]) wr))"
proof (intro exI conjI)
  show "(int W - tw) div 2 = (int W - tw) div 2" ..
  show "(int H + th) div 2 = (int H + th) div 2" ..
  show "2 * ((int W - tw) div 2) \<le> int W - tw" by presburger
  show "int W - tw < 2 * ((int W - tw) div 2) + 2" by presburger
  show "2 * ((int H + th) div 2) \<le> int H + th" by presburger
  show "int H + th < 2 * ((int H + th) div 2) + 2" by presburger
  show "generate_text_mask env (H # W # rest) text =
          (case putText env (zeros [H, W]) text ((int W - tw) div 2, (int H + th) div 2)
                  FONT_HERSHEY_SIMPLEX 6 255 18 LINE_AA of
             Inl e \<Rightarrow> Inl e
           | Inr wr \<Rightarrow> Inr (put_pixels (zeros [H, W]) wr))"
    using assms by (simp add: generate_text_mask_2d)
qed

text \<open>A canvas 3 wide and 2 high, a text measured 24 by 2: the anchor is
  \<open>((3 - 24) div 2, (2 + 2) div 2) = (-11, 2)\<close>; the division rounds down, not towards
  zero.\<close>

theorem generate_text_mask_anchor_witness:
  "getTextSize stub_lib ''SAMPLE'' FONT_HERSHEY_SIMPLEX 6 18 = Inr ((24, 2), 1)
   \<and> generate_text_mask stub_lib [2, 3, 3] ''SAMPLE'' =
       (case putText stub_lib (zeros [2, 3]) ''SAMPLE'' (- 11, 2)
               FONT_HERSHEY_SIMPLEX 6 255 18 LINE_AA of
          Inl e \<Rightarrow> Inl e
        | Inr wr \<Rightarrow> Inr (put_pixels (zeros [2, 3]) wr))"
proof -
  have ts: "getTextSize stub_lib ''SAMPLE'' FONT_HERSHEY_SIMPLEX 6 18 = Inr ((24, 2), 1)"
    by (simp add: stub_lib_def)
  have x: "(int 3 - 24) div 2 = - 11" by simp
  have y: "(int 2 + 2) div 2 = 2" by simp
  from generate_text_mask_anchor [OF ts, of 3 2 "[3]"] ts x y show ?thesis
    by simp
qed

text \<open>A mask is binary when every pixel read by its index is 0 or 255, and an index
  below \<open>H * W\<close> is the pixel of a row and a column of the canvas.\<close>

lemma binary_mask_nth: "binary_mask m \<longleftrightarrow> (\<forall>i<length (data m). data m ! i = 0 \<or> data m ! i = 255)"
  by (simp add: binary_mask_def list_all_length)

lemma pixel_of_index:
  assumes "i < H * (W::nat)"
  shows "i div W < H \<and> i mod W < W \<and> (i div W) * W + i mod W = i"
proof -
  from assms have "0 < W" by (cases W) simp_all
  moreover have "i div W < H" using assms by (simp add: less_mult_imp_div_less)
  ultimately show ?thesis by simp
qed

text \<open>
  C2, as the code has it. For a canvas \<open>H\<close> by \<open>W\<close>, when the two library calls return,
  a pixel of the mask that the rasteriser did not write holds zero and a pixel it wrote
  holds the value it stored there: \<open>generate_text_mask\<close> applies no threshold. The
  rasteriser is asked for colour 255 with the anti-aliased line type, so the mask is
  binary exactly when every value the rasteriser stored on the canvas is 0 or 255.
\<close>

theorem mask_holds_rasteriser_values:
  assumes "getTextSize env text FONT_HERSHEY_SIMPLEX 6 18 = Inr ((tw, th), bl)"
    and "putText env (zeros [H, W]) text ((int W - tw) div 2, (int H + th) div 2)
           FONT_HERSHEY_SIMPLEX 6 255 18 LINE_AA = Inr wr"
  shows "\<exists>m. generate_text_mask env (H # W # rest) text = Inr m
           \<and> (\<forall>r<H. \<forall>c<W. data m ! (r * W + c)
                            = (case wr (r, c) of None \<Rightarrow> 0 | Some v \<Rightarrow> v))
           \<and> (binary_mask m
                \<longleftrightarrow> (\<forall>r<H. \<forall>c<W. \<forall>v. wr (r, c) = Some v \<longrightarrow> v = 0 \<or> v = 255))"
proof -
  let ?m = "put_pixels (zeros [H, W]) wr"
  let ?px = "\<lambda>r c. case wr (r, c) of None \<Rightarrow> (0::8 word) | Some v \<Rightarrow> v"
  have run: "generate_text_mask env (H # W # rest) text = Inr ?m"
    using assms by (simp add: generate_text_mask_2d)
  have len: "length (data ?m) = H * W"
    by (simp add: length_put_pixels zeros_def)
  have px: "\<forall>r<H. \<forall>c<W. data ?m ! (r * W + c) = ?px r c"
    by (simp add: put_pixels_zeros_nth)
  have "binary_mask ?m \<longleftrightarrow> (\<forall>r<H. \<forall>c<W. ?px r c = 0 \<or> ?px r c = 255)"
  proof
    assume b: "binary_mask ?m"
    show "\<forall>r<H. \<forall>c<W. ?px r c = 0 \<or> ?px r c = 255"
    proof (intro allI impI)
      fix r c assume rc: "r < H" "c < W"
      then have "r * W + c < length (data ?m)"
        using len by (simp add: pixel_index_less)
      with b have "data ?m ! (r * W + c) = 0 \<or> data ?m ! (r * W + c) = 255"
        by (simp add: binary_mask_nth)
      with px rc show "?px r c = 0 \<or> ?px r c = 255" by simp
    qed
  next
    assume a: "\<forall>r<H. \<forall>c<W. ?px r c = 0 \<or> ?px r c = 255"
    show "binary_mask ?m"
      unfolding binary_mask_nth
    proof (intro allI impI)
      fix i assume "i < length (data ?m)"
      then have i: "i < H * W" using len by simp
      note ix = pixel_of_index [OF i]
      from px ix have "data ?m ! ((i div W) * W + i mod W) = ?px (i div W) (i mod W)"
        by blast
      with ix a show "data ?m ! i = 0 \<or> data ?m ! i = 255"
        by simp
    qed
  qed
  also have "\<dots> \<longleftrightarrow> (\<forall>r<H. \<forall>c<W. \<forall>v. wr (r, c) = Some v \<longrightarrow> v = 0 \<or> v = 255)"
    by (auto split: option.splits)
  finally have bin: "binary_mask ?m
      \<longleftrightarrow> (\<forall>r<H. \<forall>c<W. \<forall>v. wr (r, c) = Some v \<longrightarrow> v = 0 \<or> v = 255)" .
  from run px bin show ?thesis by blast
qed

text \<open>With the rasteriser that stores 255 only, on a 4 by 8 canvas: the pixel of row 1,
  column 2 is on, its left neighbour is off, and the mask is binary.\<close>

theorem mask_holds_rasteriser_values_witness:
  "getTextSize stub_lib ''A'' FONT_HERSHEY_SIMPLEX 6 18 = Inr ((4, 2), 1)
   \<and> (\<exists>m. generate_text_mask stub_lib [4, 8, 3] ''A'' = Inr m
          \<and> data m ! 10 = 255 \<and> data m ! 9 = 0 \<and> binary_mask m)"
proof -
  let ?wr = "\<lambda>(r, c). if 2 \<le> int c \<and> int c < 2 + 4 * int (length ''A'')
                            \<and> 3 - 2 \<le> int r \<and> int r < 3
                         then Some (word_of_int 255 :: 8 word) else None"
  have ts: "getTextSize stub_lib ''A'' FONT_HERSHEY_SIMPLEX 6 18 = Inr ((4, 2), 1)"
    by (simp add: stub_lib_def)
  have pt: "putText stub_lib (zeros [4, 8]) ''A'' ((int 8 - 4) div 2, (int 4 + 2) div 2)
              FONT_HERSHEY_SIMPLEX 6 255 18 LINE_AA = Inr ?wr"
    by (simp add: stub_lib_def)
  have bin: "\<forall>r<4. \<forall>c<8. \<forall>v. ?wr (r, c) = Some v \<longrightarrow> v = 0 \<or> v = 255"
    by simp
  from mask_holds_rasteriser_values [OF ts pt, of "[3]"]
  obtain m where run: "generate_text_mask stub_lib [4, 8, 3] ''A'' = Inr m"
    and px: "\<forall>r<4. \<forall>c<8. data m ! (r * 8 + c) = (case ?wr (r, c) of None \<Rightarrow> 0 | Some v \<Rightarrow> v)"
    and b: "binary_mask m
             \<longleftrightarrow> (\<forall>r<4. \<forall>c<8. \<forall>v. ?wr (r, c) = Some v \<longrightarrow> v = 0 \<or> v = 255)"
    by blast
  from px [rule_format, of 1 2] have p1: "data m ! 10 = 255"
    by simp
  from px [rule_format, of 1 1] have p0: "data m ! 9 = 0"
    by simp
  from b bin have "binary_mask m" by blast
  with ts run p1 p0 show ?thesis by blast
qed

text \<open>C2 as stated, that every pixel is 0 or 255, fails: with a rasteriser that blends
  the edge of a stroke the mask of the same canvas holds 127 beside the box.\<close>

theorem mask_not_binary_counterexample:
  "generate_text_mask aa_lib [4, 8, 3] ''A''
     = Inr \<lparr>shape = [4, 8],
            data = [0, 0, 0, 0, 0, 0, 0, 0,
                    0, 127, 255, 255, 255, 255, 127, 0,
                    0, 127, 255, 255, 255, 255, 127, 0,
                    0, 0, 0, 0, 0, 0, 0, 0]\<rparr>
   \<and> \<not> binary_mask \<lparr>shape = [4, 8],
            data = [0, 0, 0, 0, 0, 0, 0, 0,
                    0, 127, 255, 255, 255, 255, 127, 0,
                    0, 127, 255, 255, 255, 255, 127, 0,
                    0, 0, 0, 0, 0, 0, 0, 0]\<rparr>"
proof
  show "generate_text_mask aa_lib [4, 8, 3] ''A''
     = Inr \<lparr>shape = [4, 8],
            data = [0, 0, 0, 0, 0, 0, 0, 0,
                    0, 127, 255, 255, 255, 255, 127, 0,
                    0, 127, 255, 255, 255, 255, 127, 0,
                    0, 0, 0, 0, 0, 0, 0, 0]\<rparr>"
    by code_simp
  show "\<not> binary_mask \<lparr>shape = [4, 8],
            data = [0, 0, 0, 0, 0, 0, 0, 0,
                    0, 127, 255, 255, 255, 255, 127, 0,
                    0, 127, 255, 255, 255, 255, 127, 0,
                    0, 0, 0, 0, 0, 0, 0, 0]\<rparr>"
    by (simp add: binary_mask_def)
qed

text \<open>
  C7, as the code has it. \<open>generate_text_mask\<close> has no check that the text fits and no
  handler. For a canvas \<open>H\<close> by \<open>W\<close> and a text measured \<open>tw\<close> by \<open>th\<close>, a box wider
  than the canvas makes the anchor's \<open>x\<close> negative, and the anchor is handed to the
  rasteriser as it is. What the rasteriser does then is what the function does: when it
  raises, the function raises the same exception; when it returns, the function returns
  the mask of shape \<open>[H, W]\<close> that holds, pixel by pixel, the value stored there, and
  zero where none was stored.
\<close>

theorem generate_text_mask_delegates:
  assumes "getTextSize env text FONT_HERSHEY_SIMPLEX 6 18 = Inr ((tw, th), bl)"
  shows "(int W < tw \<longrightarrow> (int W - tw) div 2 < 0)
       \<and> (\<forall>e. putText env (zeros [H, W]) text ((int W - tw) div 2, (int H + th) div 2)
                  FONT_HERSHEY_SIMPLEX 6 255 18 LINE_AA = Inl e
              \<longrightarrow> generate_text_mask env (H # W # rest) text = Inl e)
       \<and> (\<forall>wr. putText env (zeros [H, W]) text ((int W - tw) div 2, (int H + th) div 2)
                   FONT_HERSHEY_SIMPLEX 6 255 18 LINE_AA = Inr wr
              \<longrightarrow> (\<exists>m. generate_text_mask env (H # W # rest) text = Inr m
                     \<and> shape m = [H, W] \<and> length (data m) = H * W
                     \<and> (\<forall>r<H. \<forall>c<W. data m ! (r * W + c)
                                      = (case wr (r, c) of None \<Rightarrow> 0 | Some v \<Rightarrow> v))))"
proof (intro conjI allI impI)
  assume "int W < tw"
  then show "(int W - tw) div 2 < 0" by presburger
next
  fix e
  assume "putText env (zeros [H, W]) text ((int W - tw) div 2, (int H + th) div 2)
            FONT_HERSHEY_SIMPLEX 6 255 18 LINE_AA = Inl e"
  with assms show "generate_text_mask env (H # W # rest) text = Inl e"
    by (simp add: generate_text_mask_2d)
next
  fix wr
  assume pt: "putText env (zeros [H, W]) text ((int W - tw) div 2, (int H + th) div 2)
            FONT_HERSHEY_SIMPLEX 6 255 18 LINE_AA = Inr wr"
  let ?m = "put_pixels (zeros [H, W]) wr"
  have run: "generate_text_mask env (H # W # rest) text = Inr ?m"
    using assms pt by (simp add: generate_text_mask_2d)
  have shp: "shape ?m = [H, W]"
    by (simp add: shape_put_pixels zeros_def)
  have len: "length (data ?m) = H * W"
    by (simp add: length_put_pixels zeros_def)
  have px: "\<forall>r<H. \<forall>c<W. data ?m ! (r * W + c)
                          = (case wr (r, c) of None \<Rightarrow> 0 | Some v \<Rightarrow> v)"
    by (simp add: put_pixels_zeros_nth)
  from run shp len px
  show "\<exists>m. generate_text_mask env (H # W # rest) text = Inr m
            \<and> shape m = [H, W] \<and> length (data m) = H * W
            \<and> (\<forall>r<H. \<forall>c<W. data m ! (r * W + c)
                             = (case wr (r, c) of None \<Rightarrow> 0 | Some v \<Rightarrow> v))"
    by blast
qed

text \<open>With a rasteriser that raises on an array without pixels: on a canvas 3 wide the
  text \<open>SAMPLE\<close>, measured 24 wide, has the anchor's \<open>x\<close> negative and the mask is
  returned; on the canvas 0 by 5 the rasteriser raises, and so does the function.\<close>

theorem generate_text_mask_delegates_witness:
  "getTextSize strict_lib ''SAMPLE'' FONT_HERSHEY_SIMPLEX 6 18 = Inr ((24, 2), 1)
   \<and> int 3 < 24 \<and> (int 3 - 24) div 2 < (0::int)
   \<and> (\<exists>m. generate_text_mask strict_lib [2, 3, 3] ''SAMPLE'' = Inr m
          \<and> shape m = [2, 3] \<and> length (data m) = 2 * 3)
   \<and> putText strict_lib (zeros [0, 5]) ''SAMPLE'' ((int 5 - 24) div 2, (int 0 + 2) div 2)
        FONT_HERSHEY_SIMPLEX 6 255 18 LINE_AA = Inl (Exn ''empty image'')
   \<and> generate_text_mask strict_lib [0, 5, 3] ''SAMPLE'' = Inl (Exn ''empty image'')"
proof -
  have ts: "getTextSize strict_lib ''SAMPLE'' FONT_HERSHEY_SIMPLEX 6 18 = Inr ((24, 2), 1)"
    by (simp add: strict_lib_def stub_lib_def)
  obtain wr where ok:
    "putText strict_lib (zeros [2, 3]) ''SAMPLE'' ((int 3 - 24) div 2, (int 2 + 2) div 2)
       FONT_HERSHEY_SIMPLEX 6 255 18 LINE_AA = Inr wr"
    by (simp add: strict_lib_def stub_lib_def zeros_def)
  have bad:
    "putText strict_lib (zeros [0, 5]) ''SAMPLE'' ((int 5 - 24) div 2, (int 0 + 2) div 2)
       FONT_HERSHEY_SIMPLEX 6 255 18 LINE_AA = Inl (Exn ''empty image'')"
    by (simp add: strict_lib_def zeros_def)
  have wide: "int 3 < (24::int)" by simp
  note small = generate_text_mask_delegates [OF ts, of 3 2 "[3]"]
  note empty = generate_text_mask_delegates [OF ts, of 5 0 "[3]"]
  from small wide have neg: "(int 3 - 24) div 2 < (0::int)"
    by (elim conjE) simp
  from small ok have ret: "\<exists>m. generate_text_mask strict_lib [2, 3, 3] ''SAMPLE'' = Inr m
          \<and> shape m = [2, 3] \<and> length (data m) = 2 * 3"
    by blast
  from empty bad have fail: "generate_text_mask strict_lib [0, 5, 3] ''SAMPLE'' = Inl (Exn ''empty image'')"
    by (elim conjE) (simp only:)
  from ts wide neg ret bad fail show ?thesis
    by (intro conjI)
qed

text \<open>C7 as stated, that a mask is returned for every canvas, fails: on the canvas
  0 by 5 the function raises.\<close>

theorem empty_canvas_counterexample:
  "generate_text_mask strict_lib [0, 5, 3] ''SAMPLE'' = Inl (Exn ''empty image'')"
  by code_simp

subsection \<open>The batch driver\<close>

lemma console_print: "console (print s w) = console w @ [s]"
  by (simp add: print_def)

lemma files_print: "files (print s w) = files w"
  by (simp add: print_def)

lemma str_int_nat: "str_int (int n) = str_nat n"
  by (simp add: str_int_def)

lemma remove_watermark_decode_failure:
  assumes "imread env (files w) (str_path p) = Inr None"
  shows "remove_watermark env w p q t
           = (Inr False, print (''Error: Could not read image at '' @ str_path p) w)"
  using assms by (simp add: remove_watermark_def)

lemma remove_watermark_written:
  assumes "imread env (files w) (str_path p) = Inr (Some img)"
    and "generate_text_mask env (shape img) t = Inr msk"
    and "inpaint env img msk 7 INPAINT_TELEA = Inr res"
    and "imwrite env (files w) (str_path q) res = (Inr b, fs)"
  shows "remove_watermark env w p q t = (Inr True, w\<lparr>files := fs\<rparr>)"
  using assms by (simp add: remove_watermark_def)

lemma process_loop_append:
  "process_loop env w out t (xs @ ys) n =
     (case process_loop env w out t xs n of
        (Inl e, w') \<Rightarrow> (Inl e, w')
      | (Inr k, w') \<Rightarrow> process_loop env w' out t ys k)"
  by (induction xs arbitrary: w n) (auto simp: Let_def split: prod.splits sum.splits)

text \<open>The library of the evaluation: its listing and the candidates among it.\<close>

lemma stub_iterdir:
  "iterdir stub_lib fs [''in''] = Inr [[''in'', ''a.jpg''], [''in'', ''broken.png''], [''in'', ''b.PNG''], [''in'', ''notes.txt''], [''in'', ''c.tif'']]"
  by (simp add: stub_lib_def)

lemma stub_image_files:
  "image_files [[''in'', ''a.jpg''], [''in'', ''broken.png''], [''in'', ''b.PNG''], [''in'', ''notes.txt''], [''in'', ''c.tif'']]
     = [[''in'', ''a.jpg''], [''in'', ''broken.png''], [''in'', ''b.PNG''], [''in'', ''c.tif'']]"
  by code_simp

text \<open>The lines of the files that did not decode, and the loop along a batch in which
  no library call raises.\<close>

lemma error_lines_Nil: "error_lines [] [] = []"
  by (simp add: error_lines_def)

lemma error_lines_Cons:
  "error_lines (p # ps) (d # ds)
     = (if d then [] else [''Error: Could not read image at '' @ str_path p]) @ error_lines ps ds"
  by (simp add: error_lines_def)

lemma length_error_lines:
  "length ds = length ps \<Longrightarrow> length (error_lines ps ds) = length (filter Not ds)"
  by (induction ds ps rule: list_induct2) (simp_all add: error_lines_Nil error_lines_Cons)

lemma process_loop_outcomes:
  assumes "decode_outcomes env out t (files w) ps = Some (ds, fs')"
  shows "process_loop env w out t ps n
           = (Inr (n + int (length (filter id ds))),
              \<lparr>console = console w @ error_lines ps ds, files = fs'\<rparr>)
         \<and> length ds = length ps"
  using assms
proof (induction ps arbitrary: w n ds)
  case Nil
  then show ?case by (auto simp: error_lines_Nil)
next
  case (Cons p ps)
  show ?case
  proof (cases "imread env (files w) (str_path p)")
    case (Inl e)
    with Cons.prems show ?thesis by simp
  next
    case (Inr r)
    show ?thesis
    proof (cases r)
      case None
      with Inr Cons.prems obtain ds' where
        rest: "decode_outcomes env out t (files w) ps = Some (ds', fs')" and ds: "ds = False # ds'"
        by auto
      let ?w1 = "print (''Error: Could not read image at '' @ str_path p) w"
      have rw: "remove_watermark env w p (joinpath out (name_of p)) t = (Inr False, ?w1)"
        using Inr None by (simp add: remove_watermark_decode_failure)
      from rest have "decode_outcomes env out t (files ?w1) ps = Some (ds', fs')"
        by (simp add: files_print)
      from Cons.IH [OF this, of n]
      show ?thesis
        using rw ds by (simp add: error_lines_Cons console_print)
    next
      case (Some img)
      with Inr Cons.prems obtain msk where
        gm: "generate_text_mask env (shape img) t = Inr msk"
        by (auto split: sum.splits)
      with Inr Some Cons.prems obtain res where
        ip: "inpaint env img msk 7 INPAINT_TELEA = Inr res"
        by (auto split: sum.splits)
      with Inr Some gm Cons.prems obtain written fs1 ds' where
        wr: "imwrite env (files w) (str_path (joinpath out (name_of p))) res = (Inr written, fs1)"
        and rest: "decode_outcomes env out t fs1 ps = Some (ds', fs')" and ds: "ds = True # ds'"
        by (auto split: sum.splits prod.splits)
      have rw: "remove_watermark env w p (joinpath out (name_of p)) t = (Inr True, w\<lparr>files := fs1\<rparr>)"
        using Inr Some gm ip wr by (simp add: remove_watermark_written)
      from rest have "decode_outcomes env out t (files (w\<lparr>files := fs1\<rparr>)) ps = Some (ds', fs')"
        by simp
      from Cons.IH [OF this, of "n + 1"]
      show ?thesis
        using rw ds by (simp add: error_lines_Cons)
    qed
  qed
qed

lemma stub_outcomes:
  "decode_outcomes stub_lib [''out''] ''SAMPLE'' []
       [[''in'', ''a.jpg''], [''in'', ''broken.png''], [''in'', ''b.PNG''], [''in'', ''c.tif'']]
     = Some ([True, False, True, True],
             [(''out/a.jpg'', \<lparr>shape = [2, 3, 3], data = replicate 18 7\<rparr>),
              (''out/b.PNG'', \<lparr>shape = [2, 3, 3], data = replicate 18 7\<rparr>),
              (''out/c.tif'', \<lparr>shape = [2, 3, 3], data = replicate 18 7\<rparr>)])"
  by code_simp

text \<open>
  C5, as the code has it. Take a batch in which no library call raises, each call taken
  at the state the run has reached (\<open>decode_outcomes\<close> is \<open>Some\<close>). Then
  \<open>process_images\<close> returns, and what it has printed is: the number of candidates, one
  line \<open>Error: Could not read image at <path>\<close> for each file for which \<open>cv2.imread\<close>
  returned \<open>None\<close>, in the order of the batch, and the tally, where \<open>Successful\<close> is the
  number of files for which \<open>cv2.imread\<close> returned an image and \<open>Failed\<close> the number for
  which it returned \<open>None\<close>. Nothing is written for a file that did not decode: the file
  system is the one the writes of the others leave. There are as many error lines as
  files counted under \<open>Failed\<close>.
\<close>

theorem undecoded_files_are_counted:
  assumes mk: "mkdir env (files w) out True True = (Inr (), fs1)"
    and ls: "iterdir env fs1 inp = Inr entries"
    and found: "image_files entries \<noteq> []"
    and run: "decode_outcomes env out t fs1 (image_files entries) = Some (ds, fs')"
  shows "process_images env w inp out t
           = (Inr (),
              \<lparr>console = console w
                 @ [''Found '' @ str_nat (length (image_files entries)) @ '' images to process'']
                 @ error_lines (image_files entries) ds
                 @ [''Processing complete:'',
                    ''- Successful: '' @ str_nat (length (filter id ds)),
                    ''- Failed: '' @ str_nat (length (filter Not ds))],
               files = fs'\<rparr>)
       \<and> length ds = length (image_files entries)
       \<and> length (error_lines (image_files entries) ds) = length (filter Not ds)"
proof -
  let ?fs = "image_files entries"
  let ?w2 = "print (''Found '' @ str_nat (length ?fs) @ '' images to process'')
               (w\<lparr>files := fs1\<rparr>)"
  have "decode_outcomes env out t (files ?w2) ?fs = Some (ds, fs')"
    using run by (simp add: files_print)
  from process_loop_outcomes [OF this, of 0]
  have loop: "process_loop env ?w2 out t ?fs 0
                = (Inr (int (length (filter id ds))),
                   \<lparr>console = console ?w2 @ error_lines ?fs ds, files = fs'\<rparr>)"
    and len: "length ds = length ?fs"
    by simp_all
  have "length ds = length (filter id ds) + length (filter Not ds)"
    using sum_length_filter_compl [of id ds] by (simp add: comp_def)
  then have failed: "str_int (int (length ?fs) - int (length (filter id ds)))
                       = str_nat (length (filter Not ds))"
    using len str_int_nat [of "length (filter Not ds)"] by simp
  have lines: "length (error_lines ?fs ds) = length (filter Not ds)"
    using len by (rule length_error_lines)
  have "process_images env w inp out t
           = (Inr (),
              \<lparr>console = console w
                 @ [''Found '' @ str_nat (length ?fs) @ '' images to process'']
                 @ error_lines ?fs ds
                 @ [''Processing complete:'',
                    ''- Successful: '' @ str_nat (length (filter id ds)),
                    ''- Failed: '' @ str_nat (length (filter Not ds))],
               files = fs'\<rparr>)"
    using mk ls found loop failed
    by (simp add: process_images_def Let_def str_int_nat print_def)
  with len lines show ?thesis by simp
qed

text \<open>Three files that decode and one for which \<open>cv2.imread\<close> returns \<open>None\<close>
  (\<open>notes.txt\<close> is not a candidate): three files written, \<open>Successful: 3\<close>,
  \<open>Failed: 1\<close>.\<close>

theorem undecoded_files_are_counted_witness:
  "process_images stub_lib \<lparr>console = [], files = []\<rparr> [''in''] [''out''] ''SAMPLE''
     = (Inr (),
        \<lparr>console = [''Found 4 images to process'',
                     ''Error: Could not read image at in/broken.png'',
                     ''Processing complete:'', ''- Successful: 3'', ''- Failed: 1''],
         files = [(''out/a.jpg'', \<lparr>shape = [2, 3, 3], data = replicate 18 7\<rparr>),
                  (''out/b.PNG'', \<lparr>shape = [2, 3, 3], data = replicate 18 7\<rparr>),
                  (''out/c.tif'', \<lparr>shape = [2, 3, 3], data = replicate 18 7\<rparr>)]\<rparr>)"
proof -
  let ?w = "\<lparr>console = [], files = []\<rparr> :: (string \<times> ndarray) list world"
  let ?entries = "[[''in'', ''a.jpg''], [''in'', ''broken.png''], [''in'', ''b.PNG''],
                   [''in'', ''notes.txt''], [''in'', ''c.tif'']]"
  have mk: "mkdir stub_lib (files ?w) [''out''] True True = (Inr (), [])"
    by (simp add: stub_lib_def)
  have ls: "iterdir stub_lib [] [''in''] = Inr ?entries"
    by (rule stub_iterdir)
  have found: "image_files ?entries \<noteq> []"
    by (simp add: stub_image_files)
  have run: "decode_outcomes stub_lib [''out''] ''SAMPLE'' [] (image_files ?entries)
               = Some ([True, False, True, True],
                       [(''out/a.jpg'', \<lparr>shape = [2, 3, 3], data = replicate 18 7\<rparr>),
                        (''out/b.PNG'', \<lparr>shape = [2, 3, 3], data = replicate 18 7\<rparr>),
                        (''out/c.tif'', \<lparr>shape = [2, 3, 3], data = replicate 18 7\<rparr>)])"
    by (simp only: stub_image_files stub_outcomes)
  have n: "str_nat (Suc (Suc (Suc (Suc 0)))) = ''4''" "str_nat (Suc (Suc (Suc 0))) = ''3''"
    "str_nat (Suc 0) = ''1''"
    by (simp_all add: str_nat.simps)
  have lines: "error_lines
                 [[''in'', ''a.jpg''], [''in'', ''broken.png''], [''in'', ''b.PNG''], [''in'', ''c.tif'']]
                 [True, False, True, True]
               = [''Error: Could not read image at in/broken.png'']"
    by (simp add: error_lines_def str_path_def)
  from undecoded_files_are_counted [OF mk ls found run]
  show ?thesis
    by (simp add: lines stub_image_files n)
qed

text \<open>C5 as stated, for every batch, fails: in the same batch with a read of
  \<open>broken.png\<close> that raises, no line is printed for the file, the files after it are
  not processed, and no tally is printed.\<close>

theorem decode_raises_counterexample:
  "process_images raising_lib \<lparr>console = [], files = []\<rparr> [''in''] [''out''] ''SAMPLE''
     = (Inl (Exn ''cannot decode''),
        \<lparr>console = [''Found 4 images to process''],
         files = [(''out/a.jpg'', \<lparr>shape = [2, 3, 3], data = replicate 18 7\<rparr>)]\<rparr>)"
  by code_simp

text \<open>
  C8. When the output directory has been created (\<open>mkdir\<close> with \<open>parents=True\<close> and
  \<open>exist_ok=True\<close>, the first thing the function does) and the listing of the input
  directory, taken after that, has no entry with an allow-listed suffix, the function
  prints \<open>No image files found in <input_dir>\<close> and returns without raising; it
  reads and writes no image, and the file system is the one \<open>mkdir\<close> left.
\<close>

theorem no_image_files_found:
  assumes mk: "mkdir env (files w) out True True = (Inr (), fs1)"
    and ls: "iterdir env fs1 inp = Inr entries"
    and none: "\<forall>f\<in>set entries. lower (suffix f) \<notin> image_extensions"
  shows "process_images env w inp out t
           = (Inr (), \<lparr>console = console w @ [''No image files found in '' @ str_path inp],
                      files = fs1\<rparr>)"
proof -
  have "image_files entries = []"
    using none by (simp add: image_files_def)
  then show ?thesis
    using mk ls by (simp add: process_images_def print_def)
qed

text \<open>A directory holding \<open>notes.txt\<close>, \<open>.png\<close> (a hidden file without suffix) and
  \<open>README\<close>; the output directory is \<open>out/clean\<close>.\<close>

theorem no_image_files_found_witness:
  "process_images (stub_lib\<lparr>iterdir := \<lambda>fs p. Inr [p @ [''notes.txt''], p @ [''.png''], p @ [''README'']]\<rparr>)
      \<lparr>console = [], files = []\<rparr> [''in''] [''out'', ''clean''] ''SAMPLE''
     = (Inr (), \<lparr>console = [''No image files found in in''], files = []\<rparr>)"
proof -
  let ?env = "stub_lib\<lparr>iterdir := \<lambda>fs p. Inr [p @ [''notes.txt''], p @ [''.png''], p @ [''README'']]\<rparr>"
  let ?w = "\<lparr>console = [], files = []\<rparr> :: (string \<times> ndarray) list world"
  have mk: "mkdir ?env (files ?w) [''out'', ''clean''] True True = (Inr (), [])"
    by (simp add: stub_lib_def)
  have ls: "iterdir ?env [] [''in''] = Inr [[''in'', ''notes.txt''], [''in'', ''.png''], [''in'', ''README'']]"
    by simp
  have none: "\<forall>f\<in>set [[''in'', ''notes.txt''], [''in'', ''.png''], [''in'', ''README'']].
                lower (suffix f) \<notin> image_extensions"
    by (simp add: lower_def suffix_def name_of_def lower_char_def image_extensions_def)
  have s: "str_path [''in''] = ''in''" by (simp add: str_path_def)
  from no_image_files_found [OF mk ls none, of "''SAMPLE''"] s
  show ?thesis by simp
qed

text \<open>
  C9. Once the image has decoded and mask generation and inpainting have returned,
  \<open>remove_watermark\<close> returns \<open>True\<close> whatever \<open>cv2.imwrite\<close> returned (\<open>written\<close> may
  be \<open>False\<close>), and the loop adds one to \<open>processed_count\<close>.
\<close>

theorem write_result_is_ignored:
  assumes rd: "imread env (files w) (str_path p) = Inr (Some img)"
    and gm: "generate_text_mask env (shape img) t = Inr msk"
    and ip: "inpaint env img msk 7 INPAINT_TELEA = Inr res"
    and wr: "imwrite env (files w) (str_path (joinpath out (name_of p))) res = (Inr written, fs)"
  shows "remove_watermark env w p (joinpath out (name_of p)) t = (Inr True, w\<lparr>files := fs\<rparr>)
       \<and> process_loop env w out t (p # ps) n = process_loop env (w\<lparr>files := fs\<rparr>) out t ps (n + 1)
       \<and> process_loop env w out t [p] n = (Inr (n + 1), w\<lparr>files := fs\<rparr>)"
proof -
  have rw: "remove_watermark env w p (joinpath out (name_of p)) t = (Inr True, w\<lparr>files := fs\<rparr>)"
    using rd gm ip wr by (rule remove_watermark_written)
  then show ?thesis by simp
qed

text \<open>A library whose \<open>imwrite\<close> always returns \<open>False\<close> and writes nothing: the call
  still returns \<open>True\<close>, and the batch reports \<open>Successful: 3\<close> with no file written.\<close>

theorem write_result_is_ignored_witness:
  "imwrite (stub_lib\<lparr>imwrite := \<lambda>fs s a. (Inr False, fs)\<rparr>) [] ''out/a.jpg''
       \<lparr>shape = [2, 3, 3], data = replicate 18 7\<rparr> = (Inr False, [])
   \<and> remove_watermark (stub_lib\<lparr>imwrite := \<lambda>fs s a. (Inr False, fs)\<rparr>)
         \<lparr>console = [], files = []\<rparr> [''in'', ''a.jpg''] [''out'', ''a.jpg''] ''SAMPLE''
       = (Inr True, \<lparr>console = [], files = []\<rparr>)
   \<and> process_images (stub_lib\<lparr>imwrite := \<lambda>fs s a. (Inr False, fs)\<rparr>)
         \<lparr>console = [], files = []\<rparr> [''in''] [''out''] ''SAMPLE''
       = (Inr (), \<lparr>console = [''Found 4 images to process'',
                     ''Error: Could not read image at in/broken.png'',
                     ''Processing complete:'', ''- Successful: 3'', ''- Failed: 1''],
                   files = []\<rparr>)"
proof -
  let ?env = "stub_lib\<lparr>imwrite := \<lambda>fs s a. (Inr False, fs)\<rparr>"
  let ?w = "\<lparr>console = [], files = []\<rparr> :: (string \<times> ndarray) list world"
  let ?img = "\<lparr>shape = [2, 3, 3], data = replicate 18 7\<rparr>"
  have rd: "imread ?env (files ?w) (str_path [''in'', ''a.jpg'']) = Inr (Some ?img)"
    by (simp add: stub_lib_def str_path_def)
  obtain msk where gm: "generate_text_mask ?env (shape ?img) ''SAMPLE'' = Inr msk"
    by (simp add: generate_text_mask_2d stub_lib_def)
  have ip: "inpaint ?env ?img msk 7 INPAINT_TELEA = Inr ?img"
    by (simp add: stub_lib_def)
  have wr: "imwrite ?env (files ?w) (str_path (joinpath [''out''] (name_of [''in'', ''a.jpg''])))
              ?img = (Inr False, [])"
    by simp
  have wr': "imwrite ?env [] ''out/a.jpg'' ?img = (Inr False, [])"
    by simp
  have q: "joinpath [''out''] (name_of [''in'', ''a.jpg'']) = [''out'', ''a.jpg'']"
    by (simp add: joinpath_def name_of_def)
  have batch: "process_images ?env ?w [''in''] [''out''] ''SAMPLE''
       = (Inr (), \<lparr>console = [''Found 4 images to process'',
                     ''Error: Could not read image at in/broken.png'',
                     ''Processing complete:'', ''- Successful: 3'', ''- Failed: 1''],
                   files = []\<rparr>)"
    by code_simp
  from write_result_is_ignored [OF rd gm ip wr, of "[]" 0]
  have "remove_watermark ?env ?w [''in'', ''a.jpg''] [''out'', ''a.jpg''] ''SAMPLE''
          = (Inr True, ?w)"
    by (simp add: q)
  with wr' batch show ?thesis by (simp only: simp_thms)
qed

text \<open>
  C10. The candidates are the entries of the listing whose lowered suffix is in the
  allow-list, and nothing else is asked of an entry: one that is not a regular file
  (\<open>is_file\<close> is false, a directory for instance) is selected like any other. When
  it does not decode, the error line is printed and the count is not incremented; a
  directory holding only such an entry ends with \<open>Successful: 0\<close>, \<open>Failed: 1\<close>.
\<close>

theorem suffix_match_ignores_entry_kind:
  assumes mk: "mkdir env (files w) out True True = (Inr (), fs1)"
    and ls: "iterdir env fs1 inp = Inr entries"
    and member: "d \<in> set entries"
    and notfile: "\<not> is_file env fs1 d"
    and ext: "lower (suffix d) \<in> image_extensions"
  shows "d \<in> set (image_files entries)
       \<and> (\<forall>f. f \<in> set (image_files entries)
              \<longleftrightarrow> f \<in> set entries \<and> lower (suffix f) \<in> image_extensions)
       \<and> (\<forall>w' ps n. imread env (files w') (str_path d) = Inr None \<longrightarrow>
              process_loop env w' out t (d # ps) n
                = process_loop env (print (''Error: Could not read image at '' @ str_path d) w')
                    out t ps n)
       \<and> (entries = [d] \<and> imread env fs1 (str_path d) = Inr None \<longrightarrow>
              process_images env w inp out t
                = (Inr (), \<lparr>console = console w
                              @ [''Found 1 images to process'',
                                 ''Error: Could not read image at '' @ str_path d,
                                 ''Processing complete:'', ''- Successful: 0'', ''- Failed: 1''],
                            files = fs1\<rparr>))"
proof (intro conjI allI impI)
  show sel: "d \<in> set (image_files entries)"
    using member ext by (simp add: image_files_def)
  show "f \<in> set (image_files entries)
          \<longleftrightarrow> f \<in> set entries \<and> lower (suffix f) \<in> image_extensions" for f
    by (simp add: image_files_def)
  show "process_loop env w' out t (d # ps) n
          = process_loop env (print (''Error: Could not read image at '' @ str_path d) w') out t ps n"
    if "imread env (files w') (str_path d) = Inr None" for w' ps n
    using that by (simp add: remove_watermark_decode_failure)
  show "process_images env w inp out t
          = (Inr (), \<lparr>console = console w
                        @ [''Found 1 images to process'',
                           ''Error: Could not read image at '' @ str_path d,
                           ''Processing complete:'', ''- Successful: 0'', ''- Failed: 1''],
                      files = fs1\<rparr>)"
    if one: "entries = [d] \<and> imread env fs1 (str_path d) = Inr None"
  proof -
    have cand: "image_files entries = [d]"
      using one ext by (simp add: image_files_def)
    have n: "str_nat (Suc 0) = ''1''" "str_int 0 = ''0''" "str_int 1 = ''1''"
      by (simp_all add: str_nat.simps str_int_def)
    have rd: "imread env (files (print s (w\<lparr>files := fs1\<rparr>))) (str_path d) = Inr None" for s
      using one by (simp add: print_def)
    show ?thesis
      using mk ls cand rd
      by (simp add: process_images_def remove_watermark_decode_failure n)
         (simp add: print_def)
  qed
qed

text \<open>An input directory whose only entry is a subdirectory named \<open>scans.PNG\<close>.\<close>

theorem suffix_match_ignores_entry_kind_witness:
  "\<not> is_file (stub_lib\<lparr>iterdir := \<lambda>fs p. Inr [p @ [''scans.PNG'']], is_file := \<lambda>fs p. False,
                          imread := \<lambda>fs s. Inr None\<rparr>) [] [''in'', ''scans.PNG'']
   \<and> [''in'', ''scans.PNG'']
        \<in> set (image_files [[''in'', ''scans.PNG'']])
   \<and> process_images (stub_lib\<lparr>iterdir := \<lambda>fs p. Inr [p @ [''scans.PNG'']],
                                is_file := \<lambda>fs p. False, imread := \<lambda>fs s. Inr None\<rparr>)
         \<lparr>console = [], files = []\<rparr> [''in''] [''out''] ''SAMPLE''
       = (Inr (), \<lparr>console = [''Found 1 images to process'',
                                ''Error: Could not read image at in/scans.PNG'',
                                ''Processing complete:'', ''- Successful: 0'', ''- Failed: 1''],
                   files = []\<rparr>)"
proof -
  let ?env = "stub_lib\<lparr>iterdir := \<lambda>fs p. Inr [p @ [''scans.PNG'']], is_file := \<lambda>fs p. False,
                        imread := \<lambda>fs s. Inr None\<rparr>"
  let ?w = "\<lparr>console = [], files = []\<rparr> :: (string \<times> ndarray) list world"
  let ?d = "[''in'', ''scans.PNG'']"
  have mk: "mkdir ?env (files ?w) [''out''] True True = (Inr (), [])"
    by (simp add: stub_lib_def)
  have ls: "iterdir ?env [] [''in''] = Inr [?d]"
    by simp
  have member: "?d \<in> set [?d]"
    by simp
  have notfile: "\<not> is_file ?env [] ?d"
    by simp
  have ext: "lower (suffix ?d) \<in> image_extensions"
    by (simp add: lower_def suffix_def name_of_def lower_char_def image_extensions_def)
  have rd: "[?d] = [?d] \<and> imread ?env [] (str_path ?d) = Inr None"
    by simp
  have s: "str_path ?d = ''in/scans.PNG''"
    by (simp add: str_path_def)
  from suffix_match_ignores_entry_kind [OF mk ls member notfile ext, of "''SAMPLE''"] rd s notfile ext
  show ?thesis by simp
qed

text \<open>A fault raised by a library call of the per-image processing leaves
  \<open>remove_watermark\<close> as it is, and nothing is printed there.\<close>

lemma remove_watermark_fault:
  assumes "imread env (files w) (str_path p) = Inl e
         \<or> (\<exists>img. imread env (files w) (str_path p) = Inr (Some img)
               \<and> (generate_text_mask env (shape img) t = Inl e
                  \<or> (\<exists>msk. generate_text_mask env (shape img) t = Inr msk
                        \<and> (inpaint env img msk 7 INPAINT_TELEA = Inl e
                           \<or> (\<exists>res. inpaint env img msk 7 INPAINT_TELEA = Inr res
                                 \<and> fst (imwrite env (files w) (str_path q) res) = Inl e)))))"
  shows "fst (remove_watermark env w p q t) = Inl e
       \<and> console (snd (remove_watermark env w p q t)) = console w"
  using assms
  by (auto simp: remove_watermark_def split: prod.splits sum.splits)

lemma main_returns: "fst (main env w a) = Inr ()"
  by (simp add: main_def split: prod.splits sum.splits exn.splits)

text \<open>
  C6. Let the files before \<open>p\<close> be processed without an exception, and let a library
  call made for \<open>p\<close> (decoding, mask generation, inpainting or encoding) raise
  \<open>Exn msg\<close>. Then \<open>remove_watermark\<close> raises it without printing, the loop raises it
  whatever files remain (they are neither read nor written), \<open>process_images\<close> raises
  it without printing a tally, and \<open>main\<close> catches it, prints \<open>Error: msg\<close> and
  returns: the exit status is 0.
\<close>

theorem library_fault_abandons_batch:
  assumes mk: "mkdir env (files w) (output_dir a) True True = (Inr (), fs1)"
    and ls: "iterdir env fs1 (input_dir a) = Inr entries"
    and batch: "image_files entries = pre @ p # remaining"
    and before: "process_loop env
                   (print (''Found '' @ str_nat (length (image_files entries))
                           @ '' images to process'') (w\<lparr>files := fs1\<rparr>))
                   (output_dir a) (text_arg a) pre 0 = (Inr k, w1)"
    and fault: "imread env (files w1) (str_path p) = Inl (Exn msg)
         \<or> (\<exists>img. imread env (files w1) (str_path p) = Inr (Some img)
               \<and> (generate_text_mask env (shape img) (text_arg a) = Inl (Exn msg)
                  \<or> (\<exists>msk. generate_text_mask env (shape img) (text_arg a) = Inr msk
                        \<and> (inpaint env img msk 7 INPAINT_TELEA = Inl (Exn msg)
                           \<or> (\<exists>res. inpaint env img msk 7 INPAINT_TELEA = Inr res
                                 \<and> fst (imwrite env (files w1)
                                          (str_path (joinpath (output_dir a) (name_of p))) res)
                                     = Inl (Exn msg))))))"
  shows "\<exists>w2. remove_watermark env w1 p (joinpath (output_dir a) (name_of p)) (text_arg a)
                = (Inl (Exn msg), w2)
           \<and> console w2 = console w1
           \<and> process_loop env w1 (output_dir a) (text_arg a) (p # remaining) k
                = (Inl (Exn msg), w2)
           \<and> process_images env w (input_dir a) (output_dir a) (text_arg a)
                = (Inl (Exn msg), w2)
           \<and> main env w a = (Inr (), print (''Error: '' @ msg) w2)
           \<and> exit_status (main env w a) = 0"
proof -
  let ?q = "joinpath (output_dir a) (name_of p)"
  from remove_watermark_fault [OF fault]
  obtain w2 where rw: "remove_watermark env w1 p ?q (text_arg a) = (Inl (Exn msg), w2)"
    and con: "console w2 = console w1"
    by (cases "remove_watermark env w1 p ?q (text_arg a)") simp
  have step: "process_loop env w1 (output_dir a) (text_arg a) (p # remaining) k
                = (Inl (Exn msg), w2)"
    by (simp add: rw)
  have loop: "process_loop env
                (print (''Found '' @ str_nat (length (image_files entries))
                        @ '' images to process'') (w\<lparr>files := fs1\<rparr>))
                (output_dir a) (text_arg a) (image_files entries) 0 = (Inl (Exn msg), w2)"
    using before step by (simp add: batch process_loop_append)
  have cand: "image_files entries \<noteq> []"
    using batch by simp
  have run: "process_images env w (input_dir a) (output_dir a) (text_arg a)
               = (Inl (Exn msg), w2)"
    using mk ls cand loop by (simp add: process_images_def)
  have top: "main env w a = (Inr (), print (''Error: '' @ msg) w2)"
    by (simp add: main_def run)
  have status: "exit_status (main env w a) = 0"
    by (simp add: exit_status_def main_returns)
  from rw con step run top status show ?thesis
    by (intro exI [of _ w2] conjI)
qed

text \<open>Four candidates: \<open>a.jpg\<close> is written, \<open>broken.png\<close> does not decode, inpainting
  raises on \<open>b.PNG\<close>, and \<open>c.tif\<close> is never reached.\<close>

theorem library_fault_abandons_batch_witness:
  "main faulty_lib \<lparr>console = [], files = []\<rparr>
       \<lparr>input_dir = [''in''], output_dir = [''out''], text_arg = ''SAMPLE''\<rparr>
     = (Inr (), \<lparr>console = [''Found 4 images to process'',
                              ''Error: Could not read image at in/broken.png'',
                              ''Error: inpaint failed''],
                 files = [(''out/a.jpg'', \<lparr>shape = [2, 3, 3], data = replicate 18 7\<rparr>)]\<rparr>)
   \<and> exit_status (main faulty_lib \<lparr>console = [], files = []\<rparr>
       \<lparr>input_dir = [''in''], output_dir = [''out''], text_arg = ''SAMPLE''\<rparr>) = 0"
proof -
  let ?w = "\<lparr>console = [], files = []\<rparr> :: (string \<times> ndarray) list world"
  let ?a = "\<lparr>input_dir = [''in''], output_dir = [''out''], text_arg = ''SAMPLE''\<rparr>"
  let ?entries = "[[''in'', ''a.jpg''], [''in'', ''broken.png''], [''in'', ''b.PNG''],
                   [''in'', ''notes.txt''], [''in'', ''c.tif'']]"
  let ?w1 = "\<lparr>console = [''Found 4 images to process'',
                           ''Error: Could not read image at in/broken.png''],
              files = [(''out/a.jpg'', \<lparr>shape = [2, 3, 3], data = replicate 18 7\<rparr>)]\<rparr>"
  have mk: "mkdir faulty_lib (files ?w) (output_dir ?a) True True = (Inr (), [])"
    by (simp add: faulty_lib_def stub_lib_def)
  have ls: "iterdir faulty_lib [] (input_dir ?a) = Inr ?entries"
    by (simp add: faulty_lib_def stub_lib_def)
  have batch: "image_files ?entries
                 = [[''in'', ''a.jpg''], [''in'', ''broken.png'']] @ [''in'', ''b.PNG''] # [[''in'', ''c.tif'']]"
    by (simp add: stub_image_files)
  have before: "process_loop faulty_lib
                  (print (''Found '' @ str_nat (length (image_files ?entries))
                          @ '' images to process'') (?w\<lparr>files := []\<rparr>))
                  (output_dir ?a) (text_arg ?a) [[''in'', ''a.jpg''], [''in'', ''broken.png'']] 0
                = (Inr 1, ?w1)"
    by code_simp
  have fault: "imread faulty_lib (files ?w1) (str_path [''in'', ''b.PNG'']) = Inl (Exn ''inpaint failed'')
         \<or> (\<exists>img. imread faulty_lib (files ?w1) (str_path [''in'', ''b.PNG'']) = Inr (Some img)
               \<and> (generate_text_mask faulty_lib (shape img) (text_arg ?a) = Inl (Exn ''inpaint failed'')
                  \<or> (\<exists>msk. generate_text_mask faulty_lib (shape img) (text_arg ?a) = Inr msk
                        \<and> (inpaint faulty_lib img msk 7 INPAINT_TELEA = Inl (Exn ''inpaint failed'')
                           \<or> (\<exists>res. inpaint faulty_lib img msk 7 INPAINT_TELEA = Inr res
                                 \<and> fst (imwrite faulty_lib (files ?w1)
                                          (str_path (joinpath (output_dir ?a) (name_of [''in'', ''b.PNG'']))) res)
                                     = Inl (Exn ''inpaint failed''))))))"
    by (simp add: faulty_lib_def stub_lib_def str_path_def generate_text_mask_2d)
  have here: "remove_watermark faulty_lib ?w1 [''in'', ''b.PNG'']
                (joinpath (output_dir ?a) (name_of [''in'', ''b.PNG''])) (text_arg ?a)
              = (Inl (Exn ''inpaint failed''), ?w1)"
    by code_simp
  from library_fault_abandons_batch [OF mk ls batch before fault]
  obtain w2 where rw: "remove_watermark faulty_lib ?w1 [''in'', ''b.PNG'']
                (joinpath (output_dir ?a) (name_of [''in'', ''b.PNG''])) (text_arg ?a)
              = (Inl (Exn ''inpaint failed''), w2)"
    and top: "main faulty_lib ?w ?a = (Inr (), print (''Error: '' @ ''inpaint failed'') w2)"
    and status: "exit_status (main faulty_lib ?w ?a) = 0"
    by (elim exE conjE)
  from rw here have w2: "w2 = ?w1"
    by simp
  have "main faulty_lib ?w ?a
          = (Inr (), \<lparr>console = [''Found 4 images to process'',
                              ''Error: Could not read image at in/broken.png'',
                              ''Error: inpaint failed''],
                 files = [(''out/a.jpg'', \<lparr>shape = [2, 3, 3], data = replicate 18 7\<rparr>)]\<rparr>)"
    unfolding top w2 by (simp add: print_def)
  with status show ?thesis
    by (intro conjI)
qed

end
